theory Spec2Isabelle
  imports Main "HOL-Library.AList"
begin

section \<open>Group chat orchestration: the data model\<close>

text \<open>
  A shallow embedding of \<^verbatim>\<open>autogen/agentchat/groupchat2.py\<close> (the ledger
  \<^verbatim>\<open>GroupChat2\<close> and the orchestrator \<^verbatim>\<open>GroupChatManager2\<close>) and of
  \<^verbatim>\<open>autogen/persistence/store.py\<close> (the serialization registry).

  Python exceptions are values of the type \<open>error\<close>; a function that may raise returns
  \<open>error + 'a\<close>, with \<open>Inl\<close> for the exception.
\<close>

datatype error =
    ValueError | KeyError | TypeError | IndexError | ZeroDivisionError
  | EOFError | AttributeError | KeyboardInterrupt

text \<open>
  Python values as they come out of \<^verbatim>\<open>json.loads\<close>; \<open>PNone\<close> is Python's
  \<^verbatim>\<open>None\<close> (JSON \<^verbatim>\<open>null\<close>). A float is kept by its literal text: nothing
  here computes with it.
\<close>

datatype pyval =
    PNone | PBool bool | PInt int | PFloat string | PStr string
  | PList "pyval list" | PDict "(string \<times> pyval) list"

text \<open>
  \<^verbatim>\<open>v[key]\<close> for a string key: a dict is looked up (\<^verbatim>\<open>KeyError\<close> when the key is
  missing), every other value raises \<^verbatim>\<open>TypeError\<close>.
\<close>

fun subscript :: "pyval \<Rightarrow> string \<Rightarrow> error + pyval" where
  "subscript (PDict kvs) k = (case map_of kvs k of None \<Rightarrow> Inl KeyError | Some v \<Rightarrow> Inr v)"
| "subscript v k = Inl TypeError"

text \<open>
  An agent object. Python compares agents by identity (\<^verbatim>\<open>==\<close>, \<^verbatim>\<open>!=\<close> and
  \<^verbatim>\<open>in\<close> on objects without \<^verbatim>\<open>__eq__\<close>); \<open>ident\<close> is that identity, so that
  equality of records is equality of objects. \<open>function_map\<close> lists the keys of the
  agent's function table.
\<close>

record Agent =
  ident :: nat
  name :: string
  description :: string
  function_map :: "string list"

text \<open>
  Message content is a string or a multi-part payload. A message is a dict; the keys the
  code reads are fields here, \<open>None\<close> for an absent key.
\<close>

datatype part = TextPart string | OtherPart

datatype content = Str string | Parts "part list"

record function_call =
  fc_name :: string
  fc_arguments :: string

record message =
  msg_role :: "string option"
  msg_name :: "string option"
  msg_content :: "content option"
  msg_function_call :: "function_call option"

text \<open>\<^verbatim>\<open>allow_repeat_speaker: Optional[Union[bool, List[Agent]]]\<close>\<close>

datatype repeat_policy = RBool bool | RList "Agent list" | RNone

text \<open>
  Message dicts are shared objects: the ledger holds references into a store of dicts, and
  so does every caller that still has the dict in hand.
\<close>

type_synonym ref = nat

record GroupChat2 =
  agents :: "Agent list"
  messages :: "ref list"
  max_round :: int
  admin_name :: string
  func_call_filter :: bool
  speaker_selection_method :: string
  allow_repeat_speaker :: repeat_policy

text \<open>
  What is printed, logged, asked of the operator or of the backend, and sent, in order.
  The texts of prompts and log lines are left out; the names an event carries are those
  the text enumerates.
\<close>

datatype event =
    Print_menu "string list"
  | Print_tries nat
  | Print_invalid
  | Input_prompt
  | Log_underpopulated
  | Log_empty_description string
  | Log_parse_failure string
  | Update_system_message "string list"
  | Oai_request "string list" "string option"
  | Random_choice
  | Intro_sent nat bool
  | Sent ref nat bool
  | Reply_requested nat
  | Reply_sent nat ref

text \<open>What a speaker's reply generation yields: a message, no reply, or an interrupt.\<close>

datatype reply = Reply message | No_reply | Interrupted

text \<open>
  The world outside the ledger: the store of message dicts with its next free reference,
  and the scripts of the external collaborators, each consumed from the front: the
  operator's lines on standard input, the draws of the random generator, the decisions of
  the reasoning backend (\<^verbatim>\<open>generate_oai_reply\<close>: a flag and the response text), the
  outcomes of the speakers' reply generation.
\<close>

record world =
  heap :: "ref \<Rightarrow> message"
  next_ref :: ref
  stdin :: "string list"
  draws :: "nat list"
  decisions :: "(bool \<times> string) list"
  replies :: "reply list"
  trace :: "event list"

definition say :: "event \<Rightarrow> world \<Rightarrow> world" where
  "say e w = w\<lparr>trace := trace w @ [e]\<rparr>"

section \<open>The ledger\<close>

definition agent_names :: "GroupChat2 \<Rightarrow> string list" where
  "agent_names gc = map name (agents gc)"

text \<open>\<^verbatim>\<open>reset\<close>: \<^verbatim>\<open>self.messages.clear()\<close>.\<close>

definition reset :: "GroupChat2 \<Rightarrow> GroupChat2" where
  "reset gc = gc\<lparr>messages := []\<rparr>"

text \<open>
  Modelled from the spec: \<^verbatim>\<open>content_str\<close> of \<^verbatim>\<open>autogen/code_utils.py\<close>, which is
  not among the sources. The spec: content is normalized to a flat string, "flattening any
  structured/multi-part representation by concatenating textual segments and describing
  non-textual segments with a placeholder". The spec does not give the placeholder's text.
\<close>

definition placeholder :: string where
  "placeholder = ''<image>''"

fun part_str :: "part \<Rightarrow> string" where
  "part_str (TextPart t) = t"
| "part_str OtherPart = placeholder"

fun content_str :: "content \<Rightarrow> string" where
  "content_str (Str s) = s"
| "content_str (Parts ps) = concat (map part_str ps)"

text \<open>
  \<^verbatim>\<open>append(message)\<close>: the argument is a reference to the caller's dict.
  \<^verbatim>\<open>message["content"]\<close> raises \<^verbatim>\<open>KeyError\<close> when the key is absent, before anything
  is written. Otherwise the dict is updated in the store and its reference is appended.
\<close>

definition append_message :: "GroupChat2 \<Rightarrow> ref \<Rightarrow> world \<Rightarrow> error + (GroupChat2 \<times> world)" where
  "append_message gc m w =
     (case msg_content (heap w m) of
        None \<Rightarrow> Inl KeyError
      | Some c \<Rightarrow>
          Inr (gc\<lparr>messages := messages gc @ [m]\<rparr>,
               w\<lparr>heap := (heap w)(m := (heap w m)\<lparr>msg_content := Some (Str (content_str c))\<rparr>)\<rparr>))"

text \<open>\<^verbatim>\<open>list.index(x)\<close>: the first position of \<open>x\<close>, \<open>None\<close> for \<^verbatim>\<open>ValueError\<close>.\<close>

fun index_of :: "'a list \<Rightarrow> 'a \<Rightarrow> nat option" where
  "index_of [] x = None"
| "index_of (y # ys) x = (if y = x then Some 0 else map_option Suc (index_of ys x))"

definition agent_by_name :: "GroupChat2 \<Rightarrow> string \<Rightarrow> error + Agent" where
  "agent_by_name gc n =
     (case index_of (agent_names gc) n of
        None \<Rightarrow> Inl ValueError
      | Some i \<Rightarrow> Inr (agents gc ! i))"

text \<open>
  \<^verbatim>\<open>next_agent(agent, agents)\<close>; the second argument is \<open>pool\<close> here. On the full roster
  the successor is taken modulo the length (\<^verbatim>\<open>ZeroDivisionError\<close> on an empty roster).
  Otherwise the roster is scanned from the position after the agent's, at most once
  around, for the first member of the pool; the loop falling through returns
  \<^verbatim>\<open>None\<close>.
\<close>

definition next_agent :: "GroupChat2 \<Rightarrow> Agent \<Rightarrow> Agent list \<Rightarrow> error + Agent option" where
  "next_agent gc agent pool =
     (if pool = agents gc then
        (let offset = (case index_of (agent_names gc) (name agent) of None \<Rightarrow> 0 | Some i \<Rightarrow> i)
         in if length pool = 0 then Inl ZeroDivisionError
            else Inr (Some (pool ! ((offset + 1) mod length pool))))
      else
        (let offset = (case index_of (agent_names gc) (name agent) of None \<Rightarrow> 0 | Some i \<Rightarrow> i + 1);
             n = length (agents gc)
         in Inr (find (\<lambda>a. a \<in> set pool)
                   (map (\<lambda>i. agents gc ! ((offset + i) mod n)) [0..<n]))))"

section \<open>The speaker selector\<close>

text \<open>
  The two library functions the selector calls on text, taken as parameters:
  \<^verbatim>\<open>int\<close> on a string and \<^verbatim>\<open>json.loads\<close>. \<open>None\<close> stands for the
  \<^verbatim>\<open>ValueError\<close> of the first and the \<^verbatim>\<open>JSONDecodeError\<close> of the second.
\<close>

record stdlib =
  int_of_str :: "string \<Rightarrow> int option"
  json_loads :: "string \<Rightarrow> pyval option"

text \<open>\<^verbatim>\<open>str.lower\<close>, on ASCII text.\<close>

definition lower_char :: "char \<Rightarrow> char" where
  "lower_char c =
     (case map_of (zip ''ABCDEFGHIJKLMNOPQRSTUVWXYZ'' ''abcdefghijklmnopqrstuvwxyz'') c of
        None \<Rightarrow> c
      | Some l \<Rightarrow> l)"

definition lower :: "string \<Rightarrow> string" where
  "lower s = map lower_char s"

definition valid_speaker_selection_methods :: "string list" where
  "valid_speaker_selection_methods = [''auto'', ''manual'', ''random'', ''round_robin'']"

text \<open>
  The body of the \<^verbatim>\<open>try\<close> in \<^verbatim>\<open>manual_select_speaker\<close> once a line other than
  the empty one and \<^verbatim>\<open>q\<close> is read (lines 161-165): the agent chosen, or \<open>None\<close> for
  the \<^verbatim>\<open>ValueError\<close> that \<^verbatim>\<open>int\<close> raises on a text that is no number and that
  the code raises itself on a number out of range.
\<close>

definition chosen_agent :: "stdlib \<Rightarrow> Agent list \<Rightarrow> string \<Rightarrow> Agent option" where
  "chosen_agent lib pool i =
     (case int_of_str lib i of
        None \<Rightarrow> None
      | Some k \<Rightarrow> if k > 0 \<and> k \<le> int (length pool) then Some (pool ! nat (k - 1)) else None)"

text \<open>
  \<^verbatim>\<open>manual_select_speaker\<close>: the menu is printed, then the loop
  \<^verbatim>\<open>while try_count <= 3\<close> runs. Reading a line from an exhausted standard input raises
  \<^verbatim>\<open>EOFError\<close>, which the handler for \<^verbatim>\<open>ValueError\<close> does not catch.
\<close>

function manual_loop ::
  "stdlib \<Rightarrow> Agent list \<Rightarrow> nat \<Rightarrow> world \<Rightarrow> (error + Agent option) \<times> world" where
  "manual_loop lib pool try_count w =
     (if try_count \<le> 3 then
        (if try_count + 1 \<ge> 3 then (Inr None, say (Print_tries (try_count + 1)) w)
         else
           (case stdin w of
              [] \<Rightarrow> (Inl EOFError, say Input_prompt w)
            | i # rest \<Rightarrow>
                if i = [] \<or> i = ''q'' then (Inr None, (say Input_prompt w)\<lparr>stdin := rest\<rparr>)
                else
                  (case chosen_agent lib pool i of
                     Some a \<Rightarrow> (Inr (Some a), (say Input_prompt w)\<lparr>stdin := rest\<rparr>)
                   | None \<Rightarrow>
                       manual_loop lib pool (try_count + 1)
                         (say Print_invalid ((say Input_prompt w)\<lparr>stdin := rest\<rparr>)))))
      else (Inr None, w))"
  by pat_completeness auto
termination
  by (relation "measure (\<lambda>(lib, pool, try_count, w). 4 - try_count)") auto

declare manual_loop.simps [simp del]

definition manual_select_speaker ::
  "stdlib \<Rightarrow> Agent list \<Rightarrow> world \<Rightarrow> (error + Agent option) \<times> world" where
  "manual_select_speaker lib pool w = manual_loop lib pool 0 (say (Print_menu (map name pool)) w)"

text \<open>
  Modelled from the spec: \<^verbatim>\<open>can_execute_function\<close> of the agent class, which is not
  among the sources. The spec: the function-dispatch capability, "given a function name,
  answers whether a participant can execute it"; the candidates are the "participants whose
  function table contains the requested function name".
\<close>

definition can_execute_function :: "Agent \<Rightarrow> string \<Rightarrow> bool" where
  "can_execute_function a fn = (fn \<in> set (function_map a))"

text \<open>
  The repeat permission in effect for the last speaker (lines 179-183): a bool as it is, a
  list by membership, and \<^verbatim>\<open>last_speaker in None\<close> raises \<^verbatim>\<open>TypeError\<close>.
\<close>

definition effective_allow_repeat :: "GroupChat2 \<Rightarrow> Agent \<Rightarrow> error + bool" where
  "effective_allow_repeat gc last_speaker =
     (case allow_repeat_speaker gc of
        RBool b \<Rightarrow> Inr b
      | RList l \<Rightarrow> Inr (last_speaker \<in> set l)
      | RNone \<Rightarrow> Inl TypeError)"

text \<open>
  Function-call routing (lines 200-217): it returns a speaker at once, raises, or leaves a
  list of candidates to the rest of \<^verbatim>\<open>select_speaker\<close>. The message of the final
  \<^verbatim>\<open>ValueError\<close> reads \<^verbatim>\<open>self.messages[-1]['name']\<close>, a \<^verbatim>\<open>KeyError\<close> when the last
  message has no name.
\<close>

datatype routing = Return Agent | Raise error | Candidates "Agent list"

definition function_call_routing :: "GroupChat2 \<Rightarrow> world \<Rightarrow> routing" where
  "function_call_routing gc w =
     (if func_call_filter gc \<and> messages gc \<noteq> [] then
        (case msg_function_call (heap w (last (messages gc))) of
           None \<Rightarrow> Candidates (agents gc)
         | Some fc \<Rightarrow>
             (let capable = filter (\<lambda>a. can_execute_function a (fc_name fc)) (agents gc) in
              if length capable = 1 then Return (capable ! 0)
              else if capable = [] then
                (let mapped = filter (\<lambda>a. function_map a \<noteq> []) (agents gc) in
                 if length mapped = 1 then Return (mapped ! 0)
                 else if mapped = [] then
                   (case msg_name (heap w (last (messages gc))) of
                      None \<Rightarrow> Raise KeyError
                    | Some _ \<Rightarrow> Raise ValueError)
                 else Candidates mapped)
              else Candidates capable))
      else Candidates (agents gc))"

text \<open>
  \<^verbatim>\<open>_participant_roles\<close> logs a warning for every listed agent whose description is
  blank (\<^verbatim>\<open>description.strip() == ""\<close>, on ASCII text); the text it builds is left out.
\<close>

definition is_space :: "char \<Rightarrow> bool" where
  "is_space c = (let n = (of_char c :: nat) in (9 \<le> n \<and> n \<le> 13) \<or> (28 \<le> n \<and> n \<le> 32))"

definition participant_roles_log :: "Agent list \<Rightarrow> world \<Rightarrow> world" where
  "participant_roles_log pool w =
     fold (\<lambda>a w'. if list_all is_space (description a)
                   then say (Log_empty_description (name a)) w' else w') pool w"

text \<open>
  \<^verbatim>\<open>selector.generate_oai_reply(context)\<close>: the next decision of the backend's script.
  With no decision left the backend is unavailable: the flag is false.
\<close>

definition generate_oai_reply :: "world \<Rightarrow> (bool \<times> string) \<times> world" where
  "generate_oai_reply w =
     (case decisions w of
        [] \<Rightarrow> ((False, []), w)
      | d # ds \<Rightarrow> (d, w\<lparr>decisions := ds\<rparr>))"

text \<open>\<^verbatim>\<open>return (self.next_agent(last_speaker, agents), None)\<close>\<close>

definition no_directive :: "error + Agent option \<Rightarrow> error + (Agent option \<times> pyval)" where
  "no_directive r = (case r of Inl e \<Rightarrow> Inl e | Inr a \<Rightarrow> Inr (a, PNone))"

text \<open>
  \<^verbatim>\<open>self.agent_by_name(parsed_response["who"])\<close>: the value under \<^verbatim>\<open>"who"\<close> is
  looked up among the names, which are strings, so that any other value is not found
  (\<^verbatim>\<open>ValueError\<close>).
\<close>

definition agent_by_value :: "GroupChat2 \<Rightarrow> pyval \<Rightarrow> error + Agent" where
  "agent_by_value gc v = (case v of PStr n \<Rightarrow> agent_by_name gc n | _ \<Rightarrow> Inl ValueError)"

text \<open>
  Automatic selection (lines 231-258). Only \<^verbatim>\<open>JSONDecodeError\<close> is caught around
  \<^verbatim>\<open>json.loads\<close>, and only \<^verbatim>\<open>ValueError\<close> around the final \<^verbatim>\<open>return\<close>, whose
  tuple is evaluated from left to right: \<^verbatim>\<open>parsed_response["who"]\<close>, the lookup by name,
  \<^verbatim>\<open>parsed_response["what"]\<close>.
\<close>

definition auto_select ::
  "stdlib \<Rightarrow> GroupChat2 \<Rightarrow> Agent \<Rightarrow> Agent list \<Rightarrow> bool \<Rightarrow> world
     \<Rightarrow> (error + (Agent option \<times> pyval)) \<times> world" where
  "auto_select lib gc last_speaker pool allow w =
     (let w1 = say (Update_system_message (map name pool)) (participant_roles_log pool w);
          w2 = say (Oai_request (map name pool)
                      (if allow then None else Some (name last_speaker))) w1
      in case generate_oai_reply w2 of
           ((final, response), w3) \<Rightarrow>
             if \<not> final then (no_directive (next_agent gc last_speaker pool), w3)
             else
               (case json_loads lib response of
                  None \<Rightarrow>
                    (no_directive (next_agent gc last_speaker pool),
                     say (Log_parse_failure response) w3)
                | Some parsed_response \<Rightarrow>
                    (case subscript parsed_response ''who'' of
                       Inl e \<Rightarrow> (Inl e, w3)
                     | Inr who \<Rightarrow>
                         (case agent_by_value gc who of
                            Inl ValueError \<Rightarrow> (no_directive (next_agent gc last_speaker pool), w3)
                          | Inl e \<Rightarrow> (Inl e, w3)
                          | Inr a \<Rightarrow>
                              (case subscript parsed_response ''what'' of
                                 Inl e \<Rightarrow> (Inl e, w3)
                               | Inr what \<Rightarrow> (Inr (Some a, what), w3))))))"

text \<open>
  \<^verbatim>\<open>random.choice(agents)\<close>: \<^verbatim>\<open>IndexError\<close> on an empty list, otherwise the element
  at an index below the length, here the next draw reduced modulo the length (0 when the
  script of draws is exhausted).
\<close>

definition random_choice :: "Agent list \<Rightarrow> world \<Rightarrow> (error + Agent) \<times> world" where
  "random_choice pool w =
     (if pool = [] then (Inl IndexError, w)
      else
        (case draws w of
           [] \<Rightarrow> (Inr (pool ! 0), say Random_choice w)
         | d # ds \<Rightarrow> (Inr (pool ! (d mod length pool)), (say Random_choice w)\<lparr>draws := ds\<rparr>)))"

text \<open>
  Policy dispatch (lines 222-229) on the candidate pool, \<open>method\<close> being the lower-cased
  policy: a manual choice, the round order, a random choice, and automatic selection for
  the policy \<^verbatim>\<open>auto\<close> and for a manual selection that chose nobody.
\<close>

definition policy_dispatch ::
  "stdlib \<Rightarrow> GroupChat2 \<Rightarrow> Agent \<Rightarrow> Agent list \<Rightarrow> bool \<Rightarrow> string \<Rightarrow> world
     \<Rightarrow> (error + (Agent option \<times> pyval)) \<times> world" where
  "policy_dispatch lib gc last_speaker pool allow method w =
     (if method = ''manual'' then
        (case manual_select_speaker lib pool w of
           (Inl e, w1) \<Rightarrow> (Inl e, w1)
         | (Inr (Some a), w1) \<Rightarrow> (Inr (Some a, PNone), w1)
         | (Inr None, w1) \<Rightarrow> auto_select lib gc last_speaker pool allow w1)
      else if method = ''round_robin'' then
        (no_directive (next_agent gc last_speaker pool), w)
      else if method = ''random'' then
        (case random_choice pool w of
           (Inl e, w1) \<Rightarrow> (Inl e, w1)
         | (Inr a, w1) \<Rightarrow> (Inr (Some a, PNone), w1))
      else auto_select lib gc last_speaker pool allow w)"

text \<open>
  \<^verbatim>\<open>select_speaker(last_speaker, selector)\<close>, lines 170-258: the policy is validated,
  the repeat permission resolved, the roster size checked (with a warning for a roster of
  two), function calls routed, the last speaker removed from the candidates when repeats
  are disallowed, and the policy dispatched.
\<close>

definition select_speaker ::
  "stdlib \<Rightarrow> GroupChat2 \<Rightarrow> Agent \<Rightarrow> world \<Rightarrow> (error + (Agent option \<times> pyval)) \<times> world" where
  "select_speaker lib gc last_speaker w =
     (let method = lower (speaker_selection_method gc) in
      if method \<notin> set valid_speaker_selection_methods then (Inl ValueError, w)
      else
        (case effective_allow_repeat gc last_speaker of
           Inl e \<Rightarrow> (Inl e, w)
         | Inr allow \<Rightarrow>
             (let n_agents = length (agents gc) in
              if n_agents < 2 then (Inl ValueError, w)
              else
                (let w1 = (if n_agents = 2 \<and> method \<noteq> ''round_robin'' \<and> allow
                           then say Log_underpopulated w else w)
                 in case function_call_routing gc w1 of
                      Return a \<Rightarrow> (Inr (Some a, PNone), w1)
                    | Raise e \<Rightarrow> (Inl e, w1)
                    | Candidates cands \<Rightarrow>
                        policy_dispatch lib gc last_speaker
                          (if allow then cands else filter (\<lambda>a. a \<noteq> last_speaker) cands)
                          allow method w1))))"

section \<open>The turn orchestrator\<close>

text \<open>
  The manager: its name and its termination predicate, which the invoking context
  supplies.
\<close>

record manager =
  mgr_name :: string
  is_termination_msg :: "message \<Rightarrow> bool"

text \<open>A new dict object: it is stored at the next free reference.\<close>

definition alloc :: "message \<Rightarrow> world \<Rightarrow> ref \<times> world" where
  "alloc m w = (next_ref w, w\<lparr>heap := (heap w)(next_ref w := m), next_ref := next_ref w + 1\<rparr>)"

text \<open>
  Modelled from the spec: \<^verbatim>\<open>send\<close>, \<^verbatim>\<open>generate_reply\<close> and \<^verbatim>\<open>last_message\<close> of
  the agent class, which is not among the sources. The spec: a broadcast delivers the
  message "without requesting a reply"; reply generation "returns either a new message or
  an explicit no reply signal" and may be "interrupted by an external cancellation
  signal"; the orchestrator is to "record the reply as sent (without requesting a further
  reply) and set it as the next round's pending message". A delivery is an event of the
  trace; the outcome of reply generation is the next one of the script (no reply once the
  script is exhausted); a reply becomes a new dict, the pending message.
\<close>

definition send :: "ref \<Rightarrow> Agent \<Rightarrow> bool \<Rightarrow> world \<Rightarrow> world" where
  "send m recipient silent w = say (Sent m (ident recipient) silent) w"

definition generate_reply :: "Agent \<Rightarrow> world \<Rightarrow> reply \<times> world" where
  "generate_reply speaker w =
     (let w1 = say (Reply_requested (ident speaker)) w in
      case replies w1 of
        [] \<Rightarrow> (No_reply, w1)
      | r # rs \<Rightarrow> (r, w1\<lparr>replies := rs\<rparr>))"

definition send_reply :: "Agent \<Rightarrow> message \<Rightarrow> world \<Rightarrow> ref \<times> world" where
  "send_reply speaker m w =
     (case alloc m w of (r, w1) \<Rightarrow> (r, say (Reply_sent (ident speaker) r) w1))"

text \<open>
  Modelled from the spec: a directive is text ("optional injected directive text"). What
  the absent \<^verbatim>\<open>send\<close> and \<^verbatim>\<open>content_str\<close> do with a directive of another type is
  not in the sources; it is rejected here.
\<close>

definition directive_content :: "pyval \<Rightarrow> error + content" where
  "directive_content v = (case v of PStr s \<Rightarrow> Inr (Str s) | _ \<Rightarrow> Inl TypeError)"

text \<open>The introduction (lines 337-342): the first delivery is not silent.\<close>

fun broadcast_intro :: "bool \<Rightarrow> Agent list \<Rightarrow> world \<Rightarrow> world" where
  "broadcast_intro first [] w = w"
| "broadcast_intro first (a # as) w =
     broadcast_intro False as (say (Intro_sent (ident a) (\<not> first)) w)"

text \<open>Lines 354-357: the message goes to every roster member but the speaker, silently.\<close>

definition broadcast :: "ref \<Rightarrow> Agent \<Rightarrow> GroupChat2 \<Rightarrow> world \<Rightarrow> world" where
  "broadcast m speaker gc w =
     fold (\<lambda>a w'. if a \<noteq> speaker then send m a True w' else w') (agents gc) w"

text \<open>
  Lines 365-377: a directive that is not \<^verbatim>\<open>None\<close> becomes a dict of the manager, is
  sent to every roster member (aloud to the chosen speaker only), and a copy with the
  role \<^verbatim>\<open>assistant\<close> is appended to the ledger.
\<close>

definition inject_directive ::
  "manager \<Rightarrow> Agent option \<Rightarrow> pyval \<Rightarrow> GroupChat2 \<Rightarrow> world \<Rightarrow> error + (GroupChat2 \<times> world)" where
  "inject_directive mgr speaker moderator_message gc w =
     (if moderator_message \<noteq> PNone then
        (case directive_content moderator_message of
           Inl e \<Rightarrow> Inl e
         | Inr c \<Rightarrow>
             (case alloc \<lparr>msg_role = Some ''user'', msg_name = Some (mgr_name mgr),
                          msg_content = Some c, msg_function_call = None\<rparr> w of
                (m, w1) \<Rightarrow>
                  (let w2 = fold (\<lambda>a w'. send m a (Some a \<noteq> speaker) w') (agents gc) w1 in
                   case alloc ((heap w2 m)\<lparr>msg_role := Some ''assistant''\<rparr>) w2 of
                     (m', w3) \<Rightarrow> append_message gc m' w3)))
      else Inr (gc, w))"

text \<open>
  The handler of \<^verbatim>\<open>KeyboardInterrupt\<close> (lines 381-389 and 432-440): the admin speaks if
  it is on the roster, otherwise the interrupt is raised again.
\<close>

definition admin_takeover :: "GroupChat2 \<Rightarrow> world \<Rightarrow> (error + (Agent \<times> reply)) \<times> world" where
  "admin_takeover gc w =
     (if admin_name gc \<in> set (agent_names gc) then
        (case agent_by_name gc (admin_name gc) of
           Inl e \<Rightarrow> (Inl e, w)
         | Inr speaker \<Rightarrow>
             (case generate_reply speaker w of
                (Interrupted, w1) \<Rightarrow> (Inl KeyboardInterrupt, w1)
              | (r, w1) \<Rightarrow> (Inr (speaker, r), w1)))
      else (Inl KeyboardInterrupt, w))"

text \<open>
  Lines 378-389 of the blocking mode: the chosen speaker speaks. \<^verbatim>\<open>select_speaker\<close> may
  have returned \<^verbatim>\<open>None\<close> for the speaker, which has no \<^verbatim>\<open>generate_reply\<close>.
\<close>

definition speak :: "GroupChat2 \<Rightarrow> Agent option \<Rightarrow> world \<Rightarrow> (error + (Agent \<times> reply)) \<times> world" where
  "speak gc speaker w =
     (case speaker of
        None \<Rightarrow> (Inl AttributeError, w)
      | Some sp \<Rightarrow>
          (case generate_reply sp w of
             (Interrupted, w1) \<Rightarrow> admin_takeover gc w1
           | (r, w1) \<Rightarrow> (Inr (sp, r), w1)))"

text \<open>
  Lines 345-347, common to both modes: the sender's name is stamped on the pending dict
  unless its role is \<^verbatim>\<open>function\<close>; \<^verbatim>\<open>message["role"]\<close> raises
  \<^verbatim>\<open>KeyError\<close> on a dict without a role.
\<close>

definition stamp :: "ref \<Rightarrow> Agent \<Rightarrow> world \<Rightarrow> error + world" where
  "stamp m speaker w =
     (case msg_role (heap w m) of
        None \<Rightarrow> Inl KeyError
      | Some r \<Rightarrow>
          Inr (if r \<noteq> ''function''
               then w\<lparr>heap := (heap w)(m := (heap w m)\<lparr>msg_name := Some (name speaker)\<rparr>)\<rparr>
               else w))"

text \<open>
  The round loop of \<^verbatim>\<open>run_chat\<close>, \<^verbatim>\<open>for i in range(groupchat.max_round)\<close>: the first
  argument counts the rounds still to run, so that \<^verbatim>\<open>i == groupchat.max_round - 1\<close> is
  the last of them. The result is the value returned or the exception raised, with the
  ledger and the world as they are left.
\<close>

type_synonym run = "(error + (bool \<times> pyval)) \<times> GroupChat2 \<times> world"

fun run_rounds ::
  "manager \<Rightarrow> stdlib \<Rightarrow> nat \<Rightarrow> ref \<Rightarrow> Agent \<Rightarrow> GroupChat2 \<Rightarrow> world \<Rightarrow> run" where
  "run_rounds mgr lib 0 m speaker gc w = (Inr (True, PNone), gc, w)"
| "run_rounds mgr lib (Suc remaining) m speaker gc w =
     (case stamp m speaker w of
        Inl e \<Rightarrow> (Inl e, gc, w)
      | Inr w0 \<Rightarrow>
     (case append_message gc m w0 of
        Inl e \<Rightarrow> (Inl e, gc, w0)
      | Inr (gc1, w1) \<Rightarrow>
          if is_termination_msg mgr (heap w1 m) then (Inr (True, PNone), gc1, w1)
          else
            (let w2 = broadcast m speaker gc1 w1 in
             if remaining = 0 then (Inr (True, PNone), gc1, w2)
             else
               (case select_speaker lib gc1 speaker w2 of
                  (Inl e, w3) \<Rightarrow> (Inl e, gc1, w3)
                | (Inr (chosen, moderator_message), w3) \<Rightarrow>
                    (case inject_directive mgr chosen moderator_message gc1 w3 of
                       Inl e \<Rightarrow> (Inl e, gc1, w3)
                     | Inr (gc2, w4) \<Rightarrow>
                         (case speak gc2 chosen w4 of
                            (Inl e, w5) \<Rightarrow> (Inl e, gc2, w5)
                          | (Inr (sp, No_reply), w5) \<Rightarrow> (Inr (True, PNone), gc2, w5)
                          | (Inr (sp, Interrupted), w5) \<Rightarrow> (Inl KeyboardInterrupt, gc2, w5)
                          | (Inr (sp, Reply r), w5) \<Rightarrow>
                              (case send_reply sp r w5 of
                                 (m', w6) \<Rightarrow> run_rounds mgr lib remaining m' sp gc2 w6)))))))"

text \<open>
  \<^verbatim>\<open>run_chat(messages, sender, config)\<close>, lines 324-395: \<^verbatim>\<open>messages[-1]\<close> is the
  pending dict (\<^verbatim>\<open>IndexError\<close> on an empty list); the introduction is built
  (\<^verbatim>\<open>intro_msg\<close> goes through \<^verbatim>\<open>_participant_roles\<close>) and broadcast; then the rounds.
\<close>

definition run_chat ::
  "manager \<Rightarrow> stdlib \<Rightarrow> ref list \<Rightarrow> Agent \<Rightarrow> GroupChat2 \<Rightarrow> world \<Rightarrow> run" where
  "run_chat mgr lib msgs sender gc w =
     (if msgs = [] then (Inl IndexError, gc, w)
      else
        run_rounds mgr lib (nat (max_round gc)) (last msgs) sender gc
          (broadcast_intro True (agents gc) (participant_roles_log (agents gc) w)))"

text \<open>
  The round loop of \<^verbatim>\<open>a_run_chat\<close>, lines 409-445. Line 429 binds \<^verbatim>\<open>speaker\<close> to
  the pair that \<^verbatim>\<open>select_speaker\<close> returns, and a pair has no
  \<^verbatim>\<open>a_generate_reply\<close>: line 431 raises \<^verbatim>\<open>AttributeError\<close>, which the handler of
  \<^verbatim>\<open>KeyboardInterrupt\<close> does not catch. The \<^verbatim>\<open>try\<close> encloses the selection, so an
  interrupt raised there goes to the admin.
\<close>

fun a_run_rounds ::
  "manager \<Rightarrow> stdlib \<Rightarrow> nat \<Rightarrow> ref \<Rightarrow> Agent \<Rightarrow> GroupChat2 \<Rightarrow> world \<Rightarrow> run" where
  "a_run_rounds mgr lib 0 m speaker gc w = (Inr (True, PNone), gc, w)"
| "a_run_rounds mgr lib (Suc remaining) m speaker gc w =
     (case stamp m speaker w of
        Inl e \<Rightarrow> (Inl e, gc, w)
      | Inr w0 \<Rightarrow>
     (case append_message gc m w0 of
        Inl e \<Rightarrow> (Inl e, gc, w0)
      | Inr (gc1, w1) \<Rightarrow>
          if is_termination_msg mgr (heap w1 m) then (Inr (True, PNone), gc1, w1)
          else
            (let w2 = broadcast m speaker gc1 w1 in
             if remaining = 0 then (Inr (True, PNone), gc1, w2)
             else
               (case select_speaker lib gc1 speaker w2 of
                  (Inr pair, w3) \<Rightarrow> (Inl AttributeError, gc1, w3)
                | (Inl KeyboardInterrupt, w3) \<Rightarrow>
                    (case admin_takeover gc1 w3 of
                       (Inl e, w4) \<Rightarrow> (Inl e, gc1, w4)
                     | (Inr (sp, No_reply), w4) \<Rightarrow> (Inr (True, PNone), gc1, w4)
                     | (Inr (sp, Interrupted), w4) \<Rightarrow> (Inl KeyboardInterrupt, gc1, w4)
                     | (Inr (sp, Reply r), w4) \<Rightarrow>
                         (case send_reply sp r w4 of
                            (m', w5) \<Rightarrow> a_run_rounds mgr lib remaining m' sp gc1 w5))
                | (Inl e, w3) \<Rightarrow> (Inl e, gc1, w3)))))"

definition a_run_chat ::
  "manager \<Rightarrow> stdlib \<Rightarrow> ref list \<Rightarrow> Agent \<Rightarrow> GroupChat2 \<Rightarrow> world \<Rightarrow> run" where
  "a_run_chat mgr lib msgs sender gc w =
     (if msgs = [] then (Inl IndexError, gc, w)
      else a_run_rounds mgr lib (nat (max_round gc)) (last msgs) sender gc w)"

section \<open>The serialization registry\<close>

text \<open>
  \<^verbatim>\<open>persistence/store.py\<close>. A class is an object compared by identity, so the registry
  maps type names to references of classes, and the classes live in a table of their own:
  registration replaces the class's \<^verbatim>\<open>to_model\<close> and leaves its identity alone.
  \<open>implements_serializable\<close> is \<^verbatim>\<open>issubclass(cls, Serializable)\<close>; \<open>to_model_tag\<close> is
  \<open>None\<close> for the class's own \<^verbatim>\<open>to_model\<close> and the type name once the method wraps its
  result in the envelope of that name. The registry is a dict in insertion order.
\<close>

record class_obj =
  cls_module :: string
  cls_qualname :: string
  implements_serializable :: bool
  to_model_tag :: "string option"

record SerializableRegistry =
  registry :: "(string \<times> nat) list"
  classes :: "nat \<Rightarrow> class_obj"

text \<open>The type name a registration uses (lines 17-18).\<close>

definition resolved_type_name :: "string option \<Rightarrow> nat \<Rightarrow> SerializableRegistry \<Rightarrow> string" where
  "resolved_type_name type_name serializable_cls st =
     (case type_name of
        None \<Rightarrow> cls_module (classes st serializable_cls) @ ''.'' @
                  cls_qualname (classes st serializable_cls)
      | Some t \<Rightarrow> t)"

text \<open>
  \<^verbatim>\<open>SerializableRegistry.register(type_name)(serializable_cls)\<close>, lines 14-57. The
  class's \<^verbatim>\<open>get_model_class\<close> and the creation of the envelope class are taken to
  succeed. The \<^verbatim>\<open>from_model\<close> after the \<^verbatim>\<open>return\<close> is never reached.
\<close>

definition register ::
  "string option \<Rightarrow> nat \<Rightarrow> SerializableRegistry \<Rightarrow> (error + nat) \<times> SerializableRegistry" where
  "register type_name serializable_cls st =
     (let type_name' = resolved_type_name type_name serializable_cls st
      in if \<not> implements_serializable (classes st serializable_cls) then (Inl ValueError, st)
         else if serializable_cls \<in> set (map snd (registry st)) then (Inl ValueError, st)
         else if type_name' \<in> set (map fst (registry st)) then (Inl ValueError, st)
         else
           (Inr serializable_cls,
            st\<lparr>classes := (classes st)(serializable_cls :=
                   (classes st serializable_cls)\<lparr>to_model_tag := Some type_name'\<rparr>),
               registry := AList.update type_name' serializable_cls (registry st)\<rparr>))"

section \<open>Notions the theorems are stated with\<close>

text \<open>
  The participant the backend's next decision names, if it names one: the decision is
  available, its text decodes, and the value under \<^verbatim>\<open>"who"\<close> is a string.
\<close>

definition named_by_backend :: "stdlib \<Rightarrow> world \<Rightarrow> string option" where
  "named_by_backend lib w =
     (case decisions w of
        [] \<Rightarrow> None
      | d # _ \<Rightarrow>
          if fst d then
            (case json_loads lib (snd d) of
               None \<Rightarrow> None
             | Some parsed_response \<Rightarrow>
                 (case subscript parsed_response ''who'' of
                    Inr (PStr n) \<Rightarrow> Some n
                  | _ \<Rightarrow> None))
          else None)"

text \<open>
  Successive applications of \<^verbatim>\<open>select_speaker\<close>, each with the speaker the one before
  chose as its last speaker, the ledger staying as it is: the speakers chosen, in order.
  A selection that chooses nobody ends the sequence as it ends a run, by the
  \<^verbatim>\<open>AttributeError\<close> of asking \<^verbatim>\<open>None\<close> for a reply.
\<close>

fun successive_speakers ::
  "stdlib \<Rightarrow> GroupChat2 \<Rightarrow> nat \<Rightarrow> Agent \<Rightarrow> world \<Rightarrow> error + Agent list" where
  "successive_speakers lib gc 0 speaker w = Inr []"
| "successive_speakers lib gc (Suc k) speaker w =
     (case select_speaker lib gc speaker w of
        (Inl e, w') \<Rightarrow> Inl e
      | (Inr (None, d), w') \<Rightarrow> Inl AttributeError
      | (Inr (Some a, d), w') \<Rightarrow>
          (case successive_speakers lib gc k a w' of
             Inl e \<Rightarrow> Inl e
           | Inr rest \<Rightarrow> Inr (a # rest)))"

section \<open>Example conversations\<close>

text \<open>
  The roster of the spec's scenarios, Admin, Coder and Reviewer, of whom only the
  Reviewer has a function table; a ledger over this roster for a given policy; a world whose store holds a plain message at reference 0, a function call for
  \<^verbatim>\<open>run_tests\<close> at reference 1 and a message in two parts at reference 2.
\<close>

definition admin :: Agent where
  "admin = \<lparr>ident = 0, name = ''Admin'', description = ''the administrator'', function_map = []\<rparr>"

definition coder :: Agent where
  "coder = \<lparr>ident = 1, name = ''Coder'', description = ''writes code'', function_map = []\<rparr>"

definition reviewer :: Agent where
  "reviewer = \<lparr>ident = 2, name = ''Reviewer'', description = ''reviews code'',
                function_map = [''run_tests'']\<rparr>"

definition chat :: "string \<Rightarrow> repeat_policy \<Rightarrow> ref list \<Rightarrow> GroupChat2" where
  "chat method repeat msgs =
     \<lparr>agents = [admin, coder, reviewer], messages = msgs, max_round = 5,
      admin_name = ''Admin'', func_call_filter = True,
      speaker_selection_method = method, allow_repeat_speaker = repeat\<rparr>"

definition hello :: message where
  "hello = \<lparr>msg_role = Some ''user'', msg_name = None,
            msg_content = Some (Str ''hello''), msg_function_call = None\<rparr>"

definition call_run_tests :: message where
  "call_run_tests =
     \<lparr>msg_role = Some ''assistant'', msg_name = Some ''Coder'', msg_content = Some (Str []),
      msg_function_call = Some \<lparr>fc_name = ''run_tests'', fc_arguments = ''{}''\<rparr>\<rparr>"

definition picture :: message where
  "picture = \<lparr>msg_role = Some ''user'', msg_name = None,
              msg_content = Some (Parts [TextPart ''see '', OtherPart]),
              msg_function_call = None\<rparr>"

definition world0 :: world where
  "world0 = \<lparr>heap = (\<lambda>_. hello)(1 := call_run_tests, 2 := picture), next_ref = 3,
             stdin = [], draws = [], decisions = [], replies = [], trace = []\<rparr>"

text \<open>A registry that holds one class, and a second class not yet registered.\<close>

definition example_registry :: SerializableRegistry where
  "example_registry =
     \<lparr>registry = [(''chat.Ledger'', 0)],
      classes = (\<lambda>_. \<lparr>cls_module = ''chat'', cls_qualname = ''Ledger'',
                       implements_serializable = True, to_model_tag = None\<rparr>)
                (1 := \<lparr>cls_module = ''chat'', cls_qualname = ''Roster'',
                       implements_serializable = True, to_model_tag = None\<rparr>)\<rparr>"

text \<open>
  Two decisions of the backend as JSON text: one names Admin with a directive, one lacks
  the participant name.
\<close>

definition decision_naming_admin :: string where
  \<open>decision_naming_admin =
     ''{"why": "Admin decides", "who": "Admin", "what": "Please decide."}''\<close>

definition decision_without_who :: string where
  \<open>decision_without_who = ''{"why": "unsure", "what": "Please continue."}''\<close>

text \<open>
  Library functions for the examples: they agree with \<^verbatim>\<open>int\<close> and \<^verbatim>\<open>json.loads\<close>
  on the texts the examples use. \<^verbatim>\<open>int("1")\<close> and \<^verbatim>\<open>int("2")\<close> are 1 and 2, and
  \<^verbatim>\<open>int\<close> rejects \<^verbatim>\<open>x\<close> and \<^verbatim>\<open>y\<close>. The two decisions above decode to dicts,
  \<^verbatim>\<open>[1]\<close> to a list, and \<^verbatim>\<open>not json\<close> does not decode.
\<close>

definition example_lib :: stdlib where
  "example_lib =
     \<lparr>int_of_str = (\<lambda>s. if s = ''1'' then Some 1 else if s = ''2'' then Some 2 else None),
      json_loads =
        (\<lambda>s. if s = decision_naming_admin then
                Some (PDict [(''why'', PStr ''Admin decides''), (''who'', PStr ''Admin''),
                             (''what'', PStr ''Please decide.'')])
              else if s = decision_without_who then
                Some (PDict [(''why'', PStr ''unsure''), (''what'', PStr ''Please continue.'')])
              else if s = ''[1]'' then Some (PList [PInt 1])
              else None)\<rparr>"

definition example_manager :: manager where
  "example_manager = \<lparr>mgr_name = ''chat_manager'', is_termination_msg = (\<lambda>m. False)\<rparr>"

section \<open>The ledger: theorems\<close>

text \<open>
  C8. \<^verbatim>\<open>reset()\<close> empties the message history and changes nothing else: the roster,
  \<^verbatim>\<open>max_round\<close>, \<^verbatim>\<open>admin_name\<close>, \<^verbatim>\<open>func_call_filter\<close>,
  \<^verbatim>\<open>speaker_selection_method\<close> and \<^verbatim>\<open>allow_repeat_speaker\<close> are as before.
\<close>

theorem reset_clears_history_only:
  "messages (reset gc) = [] \<and>
   agents (reset gc) = agents gc \<and>
   max_round (reset gc) = max_round gc \<and>
   admin_name (reset gc) = admin_name gc \<and>
   func_call_filter (reset gc) = func_call_filter gc \<and>
   speaker_selection_method (reset gc) = speaker_selection_method gc \<and>
   allow_repeat_speaker (reset gc) = allow_repeat_speaker gc"
  by (simp add: reset_def)

text \<open>
  C10. \<^verbatim>\<open>append\<close> mutates the caller's dict in place: the content is overwritten
  with its flattened string, and the reference appended to the history is the caller's own,
  not a copy. After the append the newest history entry has string content, the caller's
  dict shows the normalized content, and no other dict has changed.
\<close>

theorem append_mutates_in_place:
  assumes "msg_content (heap w m) = Some c"
  shows "\<exists>gc' w'. append_message gc m w = Inr (gc', w') \<and>
           messages gc' = messages gc @ [m] \<and>
           last (messages gc') = m \<and>
           heap w' m = (heap w m)\<lparr>msg_content := Some (Str (content_str c))\<rparr> \<and>
           msg_content (heap w' (last (messages gc'))) = Some (Str (content_str c)) \<and>
           (\<forall>r. r \<noteq> m \<longrightarrow> heap w' r = heap w r)"
  using assms by (simp add: append_message_def)

theorem append_mutates_in_place_witness:
  "msg_content (heap world0 2) = Some (Parts [TextPart ''see '', OtherPart]) \<and>
   (\<exists>gc' w'. append_message (chat ''auto'' (RBool True) [0]) 2 world0 = Inr (gc', w') \<and>
      messages gc' = [0, 2] \<and>
      msg_content (heap w' 2) = Some (Str ''see <image>'') \<and>
      heap w' 0 = hello)"
  using append_mutates_in_place
    [of world0 2 "Parts [TextPart ''see '', OtherPart]" "chat ''auto'' (RBool True) [0]"]
  by (auto simp: chat_def world0_def picture_def placeholder_def)

section \<open>The serialization registry: theorems\<close>

lemma update_fresh: "k \<notin> fst ` set al \<Longrightarrow> AList.update k v al = al @ [(k, v)]"
  by (induction al) auto

text \<open>
  C9. A registration fails when the type tag is already in the registry or the class is
  already registered under any tag; a failed registration leaves the registry as it was;
  a successful one adds exactly the one new entry, for a tag and a class that were both
  absent.
\<close>

theorem register_rejects_duplicates:
  "(resolved_type_name tn c st \<in> fst ` set (registry st) \<or> c \<in> snd ` set (registry st)
      \<longrightarrow> fst (register tn c st) = Inl ValueError) \<and>
   (\<forall>e. fst (register tn c st) = Inl e \<longrightarrow> snd (register tn c st) = st) \<and>
   (\<forall>c'. fst (register tn c st) = Inr c' \<longrightarrow>
      c' = c \<and>
      resolved_type_name tn c st \<notin> fst ` set (registry st) \<and>
      c \<notin> snd ` set (registry st) \<and>
      registry (snd (register tn c st)) = registry st @ [(resolved_type_name tn c st, c)])"
  by (auto simp: register_def Let_def update_fresh)

theorem register_rejects_duplicates_witness:
  "fst (register (Some ''chat.Ledger'') 1 example_registry) = Inl ValueError \<and>
   snd (register (Some ''chat.Ledger'') 1 example_registry) = example_registry \<and>
   fst (register None 0 example_registry) = Inl ValueError \<and>
   fst (register None 1 example_registry) = Inr 1 \<and>
   registry (snd (register None 1 example_registry)) =
     [(''chat.Ledger'', 0), (''chat.Roster'', 1)]"
  using register_rejects_duplicates [of "Some ''chat.Ledger''" 1 example_registry]
    register_rejects_duplicates [of None 0 example_registry]
    register_rejects_duplicates [of None 1 example_registry]
  by (simp add: example_registry_def resolved_type_name_def register_def Let_def)

section \<open>The speaker selector: theorems\<close>

lemma say_fields [simp]:
  "heap (say e w) = heap w" "stdin (say e w) = stdin w" "decisions (say e w) = decisions w"
  "draws (say e w) = draws w" "replies (say e w) = replies w" "next_ref (say e w) = next_ref w"
  by (simp_all add: say_def)

lemma routing_heap:
  "heap w' = heap w \<Longrightarrow> function_call_routing gc w' = function_call_routing gc w"
  by (auto simp: function_call_routing_def Let_def split: option.splits)

lemma index_of_Some: "index_of xs x = Some i \<Longrightarrow> i < length xs \<and> xs ! i = x"
  by (induction xs arbitrary: i) (auto split: if_splits)

lemma index_of_distinct: "distinct xs \<Longrightarrow> i < length xs \<Longrightarrow> index_of xs (xs ! i) = Some i"
proof (induction xs arbitrary: i)
  case Nil
  then show ?case by simp
next
  case (Cons y ys)
  show ?case
  proof (cases i)
    case 0
    then show ?thesis by simp
  next
    case (Suc j)
    with Cons.prems have "j < length ys" and "ys ! j \<noteq> y" and "distinct ys" by auto
    with Cons.IH [of j] Suc show ?thesis by simp
  qed
qed

lemma agent_by_name_Inr:
  "agent_by_name gc n = Inr a \<Longrightarrow> name a = n \<and> a \<in> set (agents gc)"
  by (auto simp: agent_by_name_def agent_names_def split: option.splits dest!: index_of_Some)

lemma next_agent_member:
  assumes "next_agent gc l pool = Inr (Some a)"
  shows "a \<in> set pool"
proof (cases "pool = agents gc")
  case True
  with assms show ?thesis
    by (auto simp: next_agent_def Let_def split: if_splits)
next
  case False
  with assms have "find (\<lambda>a. a \<in> set pool)
      (map (\<lambda>i. agents gc ! (((case index_of (agent_names gc) (name l) of None \<Rightarrow> 0 | Some i \<Rightarrow> i + 1) + i)
         mod length (agents gc))) [0..<length (agents gc)]) = Some a"
    by (simp add: next_agent_def Let_def)
  then show ?thesis by (auto simp: find_Some_iff)
qed

lemma next_agent_total:
  "agents gc \<noteq> [] \<Longrightarrow> \<exists>a. next_agent gc l pool = Inr a"
  by (auto simp: next_agent_def Let_def)

lemma chosen_agent_member: "chosen_agent lib pool i = Some a \<Longrightarrow> a \<in> set pool"
  by (auto simp: chosen_agent_def split: option.splits if_splits)

lemma manual_loop_props:
  "decisions (snd (manual_loop lib pool k w)) = decisions w \<and>
   heap (snd (manual_loop lib pool k w)) = heap w \<and>
   (\<forall>a. fst (manual_loop lib pool k w) = Inr (Some a) \<longrightarrow> a \<in> set pool)"
proof (induction lib pool k w rule: manual_loop.induct)
  case (1 lib pool try_count w)
  show ?case
    unfolding manual_loop.simps [of lib pool try_count w]
    using 1 by (auto split: list.splits option.splits dest: chosen_agent_member)
qed

lemma manual_loop_stdin_only:
  "stdin w = stdin w' \<Longrightarrow> fst (manual_loop lib pool k w) = fst (manual_loop lib pool k w')"
proof (induction lib pool k w arbitrary: w' rule: manual_loop.induct)
  case (1 lib pool try_count w)
  show ?case
  proof (cases "try_count \<le> 3 \<and> \<not> try_count + 1 \<ge> 3 \<and>
      (\<exists>i rest. stdin w = i # rest \<and> \<not> (i = [] \<or> i = ''q'') \<and> chosen_agent lib pool i = None)")
    case True
    then obtain i rest where i: "stdin w = i # rest" "\<not> (i = [] \<or> i = ''q'')"
      "chosen_agent lib pool i = None"
      by blast
    have "fst (manual_loop lib pool (try_count + 1)
                 (say Print_invalid ((say Input_prompt w)\<lparr>stdin := rest\<rparr>))) =
          fst (manual_loop lib pool (try_count + 1)
                 (say Print_invalid ((say Input_prompt w')\<lparr>stdin := rest\<rparr>)))"
      using True i by (intro "1.IH") simp_all
    then show ?thesis
      unfolding manual_loop.simps [of lib pool try_count w]
        manual_loop.simps [of lib pool try_count w']
      using True i "1.prems" by simp
  next
    case False
    then show ?thesis
      unfolding manual_loop.simps [of lib pool try_count w]
        manual_loop.simps [of lib pool try_count w']
      using "1.prems" by (auto split: list.splits option.splits)
  qed
qed

lemma manual_select_props:
  "decisions (snd (manual_select_speaker lib pool w)) = decisions w \<and>
   heap (snd (manual_select_speaker lib pool w)) = heap w \<and>
   (\<forall>a. fst (manual_select_speaker lib pool w) = Inr (Some a) \<longrightarrow> a \<in> set pool)"
  using manual_loop_props [of lib pool 0 "say (Print_menu (map name pool)) w"]
  by (simp add: manual_select_speaker_def)

lemma manual_select_stdin_only:
  "stdin w = stdin w' \<Longrightarrow>
   fst (manual_select_speaker lib pool w) = fst (manual_select_speaker lib pool w')"
  unfolding manual_select_speaker_def
  by (rule manual_loop_stdin_only) simp

lemma participant_roles_log_fields [simp]:
  "decisions (participant_roles_log pool w) = decisions w"
  "heap (participant_roles_log pool w) = heap w"
  by (induction pool arbitrary: w) (simp_all add: participant_roles_log_def)

text \<open>
  C5. With the function filter enabled, the newest ledger message carrying a function call
  and exactly one roster member able to execute the requested function,
  \<^verbatim>\<open>select_speaker\<close> returns that member with no directive, whatever the policy, the
  repeat permission and the last speaker are. The policy is not consulted: nothing is read
  from the operator, drawn or asked of the backend, the world being left as it was but for
  the warning about a roster of two. The premises on the policy name, the repeat
  permission and the roster size are those of the ledger's data model; without them
  \<^verbatim>\<open>select_speaker\<close> raises before it routes.
\<close>

theorem sole_capable_agent_bypasses_policy:
  assumes "lower (speaker_selection_method gc) \<in> set valid_speaker_selection_methods"
    and "allow_repeat_speaker gc \<noteq> RNone"
    and "2 \<le> length (agents gc)"
    and "func_call_filter gc" and "messages gc \<noteq> []"
    and "msg_function_call (heap w (last (messages gc))) = Some fc"
    and "filter (\<lambda>a. can_execute_function a (fc_name fc)) (agents gc) = [a]"
  shows "fst (select_speaker lib gc last_speaker w) = Inr (Some a, PNone) \<and>
         snd (select_speaker lib gc last_speaker w) \<in> {w, say Log_underpopulated w}"
proof -
  obtain allow where allow: "effective_allow_repeat gc last_speaker = Inr allow"
    using assms(2) by (cases "allow_repeat_speaker gc") (simp_all add: effective_allow_repeat_def)
  have routed: "function_call_routing gc w' = Return a" if "heap w' = heap w" for w'
    using assms(4-7) that by (simp add: function_call_routing_def)
  have "function_call_routing gc w = Return a"
    and "function_call_routing gc (say Log_underpopulated w) = Return a"
    by (simp_all add: routed)
  with assms(1,3) allow show ?thesis
    by (simp add: select_speaker_def Let_def)
qed

theorem sole_capable_agent_bypasses_policy_witness:
  "fst (select_speaker example_lib (chat ''random'' (RBool False) [0, 1]) reviewer world0) =
     Inr (Some reviewer, PNone) \<and>
   snd (select_speaker example_lib (chat ''random'' (RBool False) [0, 1]) reviewer world0)
     \<in> {world0, say Log_underpopulated world0}"
proof -
  let ?gc = "chat ''random'' (RBool False) [0, 1]"
  have "lower (speaker_selection_method ?gc) \<in> set valid_speaker_selection_methods"
    by code_simp
  moreover have "allow_repeat_speaker ?gc \<noteq> RNone" by (simp add: chat_def)
  moreover have "2 \<le> length (agents ?gc)" by (simp add: chat_def)
  moreover have "func_call_filter ?gc" and "messages ?gc \<noteq> []" by (simp_all add: chat_def)
  moreover have "msg_function_call (heap world0 (last (messages ?gc))) =
      Some \<lparr>fc_name = ''run_tests'', fc_arguments = ''{}''\<rparr>"
    by (simp add: chat_def world0_def call_run_tests_def)
  moreover have "filter (\<lambda>a. can_execute_function a
      (fc_name \<lparr>fc_name = ''run_tests'', fc_arguments = ''{}''\<rparr>)) (agents ?gc) = [reviewer]"
    by (simp add: chat_def can_execute_function_def admin_def coder_def reviewer_def)
  ultimately show ?thesis
    by (rule sole_capable_agent_bypasses_policy)
qed

lemma select_speaker_dispatch:
  assumes "lower (speaker_selection_method gc) \<in> set valid_speaker_selection_methods"
    and "effective_allow_repeat gc last_speaker = Inr allow"
    and "2 \<le> length (agents gc)"
    and "function_call_routing gc w = Candidates cands"
  shows "\<exists>w1. (w1 = w \<or> w1 = say Log_underpopulated w \<and>
                 lower (speaker_selection_method gc) \<noteq> ''round_robin'') \<and>
           select_speaker lib gc last_speaker w =
             policy_dispatch lib gc last_speaker
               (if allow then cands else filter (\<lambda>a. a \<noteq> last_speaker) cands)
               allow (lower (speaker_selection_method gc)) w1"
proof -
  have "function_call_routing gc (say Log_underpopulated w) = Candidates cands"
    using assms(4) routing_heap [of "say Log_underpopulated w" w gc] by simp
  with assms show ?thesis
    by (auto simp: select_speaker_def Let_def)
qed

lemma auto_select_undecodable:
  assumes "decisions w = (True, response) # ds" and "json_loads lib response = None"
  shows "fst (auto_select lib gc last_speaker pool allow w) =
           no_directive (next_agent gc last_speaker pool)"
  using assms by (simp add: auto_select_def Let_def generate_oai_reply_def)

text \<open>
  C7. On the automatic path (the policy \<^verbatim>\<open>auto\<close>, or \<^verbatim>\<open>manual\<close> with an operator who
  chooses nobody), a response of the backend that does not decode as JSON makes
  \<^verbatim>\<open>select_speaker\<close> return exactly the pair of \<^verbatim>\<open>next_agent\<close> on the last speaker
  and the candidate pool, and no directive. The pool is the list of candidates that
  function-call routing leaves, less the last speaker when repeats are disallowed.
\<close>

theorem undecodable_decision_is_next_agent:
  assumes "lower (speaker_selection_method gc) = ''auto'' \<or>
           lower (speaker_selection_method gc) = ''manual'' \<and>
           fst (manual_select_speaker lib
                  (if allow then cands else filter (\<lambda>a. a \<noteq> last_speaker) cands) w) = Inr None"
    and "effective_allow_repeat gc last_speaker = Inr allow"
    and "2 \<le> length (agents gc)"
    and "function_call_routing gc w = Candidates cands"
    and "decisions w = (True, response) # ds"
    and "json_loads lib response = None"
  shows "\<exists>a. next_agent gc last_speaker
                (if allow then cands else filter (\<lambda>a. a \<noteq> last_speaker) cands) = Inr a \<and>
             fst (select_speaker lib gc last_speaker w) = Inr (a, PNone)"
proof -
  define pool where "pool = (if allow then cands else filter (\<lambda>a. a \<noteq> last_speaker) cands)"
  have valid: "lower (speaker_selection_method gc) \<in> set valid_speaker_selection_methods"
    using assms(1) by (auto simp: valid_speaker_selection_methods_def)
  obtain w1 where w1: "w1 = w \<or> w1 = say Log_underpopulated w"
    and sel: "select_speaker lib gc last_speaker w =
      policy_dispatch lib gc last_speaker pool allow (lower (speaker_selection_method gc)) w1"
    using select_speaker_dispatch [OF valid assms(2,3,4), of lib] unfolding pool_def by blast
  from w1 have same: "stdin w1 = stdin w" "decisions w1 = decisions w" by auto
  from assms(3) have "agents gc \<noteq> []" by auto
  then obtain a where a: "next_agent gc last_speaker pool = Inr a"
    using next_agent_total [of gc last_speaker pool] by blast
  have auto: "fst (auto_select lib gc last_speaker pool allow w') = Inr (a, PNone)"
    if "decisions w' = decisions w" for w'
    using auto_select_undecodable [of w' response ds lib gc last_speaker pool allow] that assms(5,6) a
    by (simp add: no_directive_def)
  have "fst (select_speaker lib gc last_speaker w) = Inr (a, PNone)"
    using assms(1)
  proof
    assume "lower (speaker_selection_method gc) = ''auto''"
    then show ?thesis
      using sel auto [of w1] same by (simp add: policy_dispatch_def)
  next
    assume m: "lower (speaker_selection_method gc) = ''manual'' \<and>
           fst (manual_select_speaker lib
                  (if allow then cands else filter (\<lambda>a. a \<noteq> last_speaker) cands) w) = Inr None"
    then have "fst (manual_select_speaker lib pool w1) = Inr None"
      using manual_select_stdin_only [OF same(1), of lib pool] by (simp add: pool_def)
    then obtain w2 where w2: "manual_select_speaker lib pool w1 = (Inr None, w2)"
      by (cases "manual_select_speaker lib pool w1") auto
    have "decisions w2 = decisions w"
      using manual_select_props [of lib pool w1] w2 same by simp
    then show ?thesis
      using m sel auto [of w2] w2 by (simp add: policy_dispatch_def)
  qed
  with a show ?thesis by (auto simp: pool_def)
qed


theorem undecodable_decision_is_next_agent_witness:
  "next_agent (chat ''auto'' (RBool False) [0]) admin [coder, reviewer] = Inr (Some coder) \<and>
   fst (select_speaker example_lib (chat ''auto'' (RBool False) [0]) admin
          (world0\<lparr>decisions := [(True, ''not json'')]\<rparr>)) = Inr (Some coder, PNone)"
proof -
  let ?gc = "chat ''auto'' (RBool False) [0]"
  let ?w = "world0\<lparr>decisions := [(True, ''not json'')]\<rparr>"
  have nxt: "next_agent ?gc admin [coder, reviewer] = Inr (Some coder)"
    by code_simp
  have "lower (speaker_selection_method ?gc) = ''auto'' \<or>
        lower (speaker_selection_method ?gc) = ''manual'' \<and>
        fst (manual_select_speaker example_lib
               (if False then [admin, coder, reviewer]
                else filter (\<lambda>a. a \<noteq> admin) [admin, coder, reviewer]) ?w) = Inr None"
    by code_simp
  moreover have "effective_allow_repeat ?gc admin = Inr False"
    by (simp add: chat_def effective_allow_repeat_def)
  moreover have "2 \<le> length (agents ?gc)" by (simp add: chat_def)
  moreover have "function_call_routing ?gc ?w = Candidates [admin, coder, reviewer]"
    by (simp add: chat_def function_call_routing_def world0_def hello_def)
  moreover have "decisions ?w = (True, ''not json'') # []" by simp
  moreover have "json_loads example_lib ''not json'' = None" by code_simp
  ultimately have "\<exists>a. next_agent ?gc admin
      (if False then [admin, coder, reviewer]
       else filter (\<lambda>a. a \<noteq> admin) [admin, coder, reviewer]) = Inr a \<and>
      fst (select_speaker example_lib ?gc admin ?w) = Inr (a, PNone)"
    by (rule undecodable_decision_is_next_agent)
  moreover have "filter (\<lambda>a. a \<noteq> admin) [admin, coder, reviewer] = [coder, reviewer]"
    by (simp add: admin_def coder_def reviewer_def)
  ultimately show ?thesis using nxt by auto
qed

lemma select_speaker_Inr:
  assumes "fst (select_speaker lib gc last_speaker w) = Inr r"
  shows "lower (speaker_selection_method gc) \<in> set valid_speaker_selection_methods \<and>
         2 \<le> length (agents gc)"
proof -
  have "lower (speaker_selection_method gc) \<in> set valid_speaker_selection_methods"
    using assms by (cases "lower (speaker_selection_method gc) \<in> set valid_speaker_selection_methods")
      (simp_all add: select_speaker_def Let_def)
  moreover have "2 \<le> length (agents gc)"
  proof (rule ccontr)
    assume "\<not> 2 \<le> length (agents gc)"
    then have "length (agents gc) < 2" by simp
    then have "\<exists>e. fst (select_speaker lib gc last_speaker w) = Inl e"
      by (cases "effective_allow_repeat gc last_speaker") (simp_all add: select_speaker_def Let_def)
    with assms show False by auto
  qed
  ultimately show ?thesis by simp
qed

lemma random_choice_props:
  "decisions (snd (random_choice pool w)) = decisions w \<and>
   (\<forall>a. fst (random_choice pool w) = Inr a \<longrightarrow> a \<in> set pool)"
  by (auto simp: random_choice_def split: list.splits)

lemma agent_by_value_Inr:
  "agent_by_value gc v = Inr a \<Longrightarrow> v = PStr (name a)"
  by (cases v) (auto simp: agent_by_value_def dest: agent_by_name_Inr)

lemma agent_by_value_Inl: "agent_by_value gc v = Inl e \<Longrightarrow> e = ValueError"
  by (cases v) (auto simp: agent_by_value_def agent_by_name_def split: option.splits)

lemma auto_select_fst:
  "fst (auto_select lib gc last_speaker pool allow w) =
     (case decisions w of
        [] \<Rightarrow> no_directive (next_agent gc last_speaker pool)
      | dec # _ \<Rightarrow>
          if \<not> fst dec then no_directive (next_agent gc last_speaker pool)
          else
            (case json_loads lib (snd dec) of
               None \<Rightarrow> no_directive (next_agent gc last_speaker pool)
             | Some parsed_response \<Rightarrow>
                 (case subscript parsed_response ''who'' of
                    Inl e \<Rightarrow> Inl e
                  | Inr who \<Rightarrow>
                      (case agent_by_value gc who of
                         Inl e \<Rightarrow> no_directive (next_agent gc last_speaker pool)
                       | Inr a \<Rightarrow>
                           (case subscript parsed_response ''what'' of
                              Inl e \<Rightarrow> Inl e
                            | Inr what \<Rightarrow> Inr (Some a, what))))))"
proof (cases "decisions w")
  case Nil
  then show ?thesis by (simp add: auto_select_def Let_def generate_oai_reply_def)
next
  case (Cons dec ds)
  obtain final response where dec: "dec = (final, response)" by (cases dec)
  show ?thesis
  proof (cases "json_loads lib response")
    case None
    with Cons dec show ?thesis by (simp add: auto_select_def Let_def generate_oai_reply_def)
  next
    case (Some p)
    show ?thesis
    proof (cases "subscript p ''who''")
      case (Inl e)
      with Cons dec Some show ?thesis
        by (simp add: auto_select_def Let_def generate_oai_reply_def)
    next
      case (Inr who)
      show ?thesis
      proof (cases "agent_by_value gc who")
        case (Inl e)
        then have "e = ValueError" by (rule agent_by_value_Inl)
        with Cons dec Some Inr Inl show ?thesis
          by (simp add: auto_select_def Let_def generate_oai_reply_def)
      next
        case b: (Inr b)
        with Cons dec Some Inr show ?thesis
          by (cases "subscript p ''what''")
            (simp_all add: auto_select_def Let_def generate_oai_reply_def)
      qed
    qed
  qed
qed

lemma no_directive_Inr:
  "no_directive r = Inr (a, d) \<Longrightarrow> r = Inr a \<and> d = PNone"
  by (cases r) (simp_all add: no_directive_def)

lemma auto_select_not_last:
  assumes res: "fst (auto_select lib gc last_speaker pool allow w) = Inr (Some a, d)"
    and pool: "last_speaker \<notin> set pool"
    and named: "named_by_backend lib w \<noteq> Some (name last_speaker)"
  shows "a \<noteq> last_speaker"
proof -
  have fallback: ?thesis if "no_directive (next_agent gc last_speaker pool) = Inr (Some a, d)"
    using that pool by (auto dest!: no_directive_Inr next_agent_member)
  show ?thesis
  proof (cases "decisions w")
    case Nil
    with res show ?thesis by (simp add: auto_select_fst fallback)
  next
    case (Cons dec ds)
    show ?thesis
    proof (cases "fst dec")
      case False
      with res Cons show ?thesis by (simp add: auto_select_fst fallback)
    next
      case True
      show ?thesis
      proof (cases "json_loads lib (snd dec)")
        case None
        with res Cons True show ?thesis by (simp add: auto_select_fst fallback)
      next
        case (Some p)
        show ?thesis
        proof (cases "subscript p ''who''")
          case (Inl e)
          with res Cons True Some show ?thesis by (simp add: auto_select_fst)
        next
          case (Inr who)
          show ?thesis
          proof (cases "agent_by_value gc who")
            case (Inl e)
            with res Cons True Some Inr show ?thesis by (simp add: auto_select_fst fallback)
          next
            case b: (Inr b)
            then have who: "who = PStr (name b)" by (rule agent_by_value_Inr)
            from res Cons True Some Inr b have "a = b"
              by (cases "subscript p ''what''") (simp_all add: auto_select_fst)
            moreover from named Cons True Some Inr who have "name b \<noteq> name last_speaker"
              by (simp add: named_by_backend_def)
            ultimately show ?thesis by auto
          qed
        qed
      qed
    qed
  qed
qed

lemma named_by_backend_cong:
  "decisions w' = decisions w \<Longrightarrow> named_by_backend lib w' = named_by_backend lib w"
  by (simp add: named_by_backend_def)

lemma policy_dispatch_not_last:
  assumes res: "fst (policy_dispatch lib gc last_speaker pool allow method w) = Inr (Some a, d)"
    and pool: "last_speaker \<notin> set pool"
    and named: "named_by_backend lib w \<noteq> Some (name last_speaker)"
  shows "a \<noteq> last_speaker"
proof -
  consider (manual) "method = ''manual''" | (rr) "method \<noteq> ''manual''" "method = ''round_robin''"
    | (random) "method \<noteq> ''manual''" "method \<noteq> ''round_robin''" "method = ''random''"
    | (auto) "method \<noteq> ''manual''" "method \<noteq> ''round_robin''" "method \<noteq> ''random''"
    by blast
  then show ?thesis
  proof cases
    case manual
    obtain r w1 where m: "manual_select_speaker lib pool w = (r, w1)"
      by (cases "manual_select_speaker lib pool w")
    with manual_select_props [of lib pool w]
    have w1: "decisions w1 = decisions w" and mem: "\<And>b. r = Inr (Some b) \<Longrightarrow> b \<in> set pool"
      by auto
    show ?thesis
    proof (cases r)
      case (Inl e)
      with res manual m show ?thesis by (simp add: policy_dispatch_def)
    next
      case (Inr choice)
      show ?thesis
      proof (cases choice)
        case None
        with res manual m Inr
        have "fst (auto_select lib gc last_speaker pool allow w1) = Inr (Some a, d)"
          by (simp add: policy_dispatch_def)
        moreover have "named_by_backend lib w1 \<noteq> Some (name last_speaker)"
          using named named_by_backend_cong [OF w1] by simp
        ultimately show ?thesis
          using pool auto_select_not_last [of lib gc last_speaker pool allow w1 a d] by blast
      next
        case (Some b)
        with res manual m Inr have "a = b" by (simp add: policy_dispatch_def)
        with mem [of b] Inr Some pool show ?thesis by auto
      qed
    qed
  next
    case rr
    with res have "next_agent gc last_speaker pool = Inr (Some a)"
      by (auto simp: policy_dispatch_def no_directive_def split: sum.splits)
    with pool show ?thesis by (auto dest: next_agent_member)
  next
    case random
    with res have "fst (random_choice pool w) = Inr a"
      by (auto simp: policy_dispatch_def split: prod.splits sum.splits)
    with random_choice_props [of pool w] pool show ?thesis by auto
  next
    case auto
    with res have "fst (auto_select lib gc last_speaker pool allow w) = Inr (Some a, d)"
      by (simp add: policy_dispatch_def)
    then show ?thesis
      using pool named auto_select_not_last [of lib gc last_speaker pool allow w a d] by blast
  qed
qed

text \<open>
  C1, as amended. With repeats disallowed for the last speaker, a speaker that
  \<^verbatim>\<open>select_speaker\<close> returns is not the last speaker, under every policy (the round
  order, a random choice, the operator's choice, and every fallback of automatic
  selection), provided that function-call routing has not returned a sole capable
  participant at once and that the backend's decision does not name the last speaker.
\<close>

theorem no_repeat_excludes_last_speaker:
  assumes "effective_allow_repeat gc last_speaker = Inr False"
    and "function_call_routing gc w = Candidates cands"
    and "named_by_backend lib w \<noteq> Some (name last_speaker)"
    and "fst (select_speaker lib gc last_speaker w) = Inr (Some a, d)"
  shows "a \<noteq> last_speaker"
proof -
  define pool where "pool = filter (\<lambda>a. a \<noteq> last_speaker) cands"
  from select_speaker_Inr [OF assms(4)]
  have valid: "lower (speaker_selection_method gc) \<in> set valid_speaker_selection_methods"
    and two: "2 \<le> length (agents gc)"
    by simp_all
  from select_speaker_dispatch [OF valid assms(1) two assms(2), of lib]
  obtain w1 where w1: "w1 = w \<or> w1 = say Log_underpopulated w"
    and sel: "select_speaker lib gc last_speaker w =
      policy_dispatch lib gc last_speaker pool False (lower (speaker_selection_method gc)) w1"
    unfolding pool_def by fastforce
  from w1 have "decisions w1 = decisions w" by auto
  then have "named_by_backend lib w1 \<noteq> Some (name last_speaker)"
    using assms(3) named_by_backend_cong [of w1 w lib] by simp
  moreover have "last_speaker \<notin> set pool" by (simp add: pool_def)
  moreover have "fst (policy_dispatch lib gc last_speaker pool
      False (lower (speaker_selection_method gc)) w1) = Inr (Some a, d)"
    using assms(4) sel by simp
  ultimately show ?thesis
    using policy_dispatch_not_last [of lib gc last_speaker pool False
        "lower (speaker_selection_method gc)" w1 a d]
    by blast
qed

theorem no_repeat_excludes_last_speaker_witness:
  "fst (select_speaker example_lib (chat ''auto'' (RBool False) [0]) coder
          (world0\<lparr>decisions := [(True, decision_naming_admin)]\<rparr>)) =
     Inr (Some admin, PStr ''Please decide.'') \<and>
   admin \<noteq> coder"
proof -
  let ?gc = "chat ''auto'' (RBool False) [0]"
  let ?w = "world0\<lparr>decisions := [(True, decision_naming_admin)]\<rparr>"
  have sel: "fst (select_speaker example_lib ?gc coder ?w) = Inr (Some admin, PStr ''Please decide.'')"
    by code_simp
  have "effective_allow_repeat ?gc coder = Inr False"
    by (simp add: chat_def effective_allow_repeat_def)
  moreover have "function_call_routing ?gc ?w = Candidates [admin, coder, reviewer]"
    by (simp add: chat_def function_call_routing_def world0_def hello_def)
  moreover have "named_by_backend example_lib ?w \<noteq> Some (name coder)"
    by code_simp
  ultimately have "admin \<noteq> coder"
    using sel by (rule no_repeat_excludes_last_speaker)
  with sel show ?thesis by simp
qed

text \<open>
  C1, as stated, fails twice. With repeats disallowed and the policy \<^verbatim>\<open>auto\<close>, a
  decision of the backend that names the last speaker, Admin, is resolved by name on the
  whole roster, and Admin is returned. With repeats disallowed and the last message a call
  of \<^verbatim>\<open>run_tests\<close>, which the Reviewer alone can execute, the Reviewer is returned
  although the Reviewer spoke last.
\<close>

theorem last_speaker_returned_counterexample:
  "effective_allow_repeat (chat ''auto'' (RBool False) [0]) admin = Inr False \<and>
   fst (select_speaker example_lib (chat ''auto'' (RBool False) [0]) admin
          (world0\<lparr>decisions := [(True, decision_naming_admin)]\<rparr>)) =
     Inr (Some admin, PStr ''Please decide.'') \<and>
   effective_allow_repeat (chat ''round_robin'' (RBool False) [0, 1]) reviewer = Inr False \<and>
   fst (select_speaker example_lib (chat ''round_robin'' (RBool False) [0, 1]) reviewer world0) =
     Inr (Some reviewer, PNone)"
  by code_simp

lemma next_agent_full:
  assumes "distinct (agent_names gc)" and "i < length (agents gc)"
  shows "next_agent gc (agents gc ! i) (agents gc) =
           Inr (Some (agents gc ! (Suc i mod length (agents gc))))"
proof -
  have "index_of (agent_names gc) (agent_names gc ! i) = Some i"
    using assms by (intro index_of_distinct) (simp_all add: agent_names_def)
  moreover have "agent_names gc ! i = name (agents gc ! i)"
    using assms(2) by (simp add: agent_names_def)
  ultimately show ?thesis
    using assms(2) by (auto simp: next_agent_def)
qed

lemma select_round_robin:
  assumes "distinct (agent_names gc)"
    and "2 \<le> length (agents gc)"
    and "lower (speaker_selection_method gc) = ''round_robin''"
    and "\<forall>a \<in> set (agents gc). effective_allow_repeat gc a = Inr True"
    and "function_call_routing gc w = Candidates (agents gc)"
    and "i < length (agents gc)"
  shows "select_speaker lib gc (agents gc ! i) w =
           (Inr (Some (agents gc ! (Suc i mod length (agents gc))), PNone), w)"
proof -
  have valid: "lower (speaker_selection_method gc) \<in> set valid_speaker_selection_methods"
    using assms(3) by (simp add: valid_speaker_selection_methods_def)
  have allow: "effective_allow_repeat gc (agents gc ! i) = Inr True"
    using assms(4,6) by simp
  from select_speaker_dispatch [OF valid allow assms(2,5), of lib] assms(3)
  have "select_speaker lib gc (agents gc ! i) w =
          policy_dispatch lib gc (agents gc ! i) (agents gc) True ''round_robin'' w"
    by auto
  then show ?thesis
    using next_agent_full [OF assms(1,6)] by (simp add: policy_dispatch_def no_directive_def)
qed

lemma successive_round_robin:
  assumes "distinct (agent_names gc)"
    and "2 \<le> length (agents gc)"
    and "lower (speaker_selection_method gc) = ''round_robin''"
    and "\<forall>a \<in> set (agents gc). effective_allow_repeat gc a = Inr True"
    and "function_call_routing gc w = Candidates (agents gc)"
    and "i < length (agents gc)"
  shows "successive_speakers lib gc k (agents gc ! i) w =
           Inr (map (\<lambda>j. agents gc ! ((Suc i + j) mod length (agents gc))) [0..<k])"
  using assms(6)
proof (induction k arbitrary: i)
  case 0
  show ?case by simp
next
  case (Suc k)
  let ?n = "length (agents gc)"
  have n: "0 < ?n" using assms(2) by (cases "agents gc") simp_all
  then have i': "Suc i mod ?n < ?n" by simp
  have step: "select_speaker lib gc (agents gc ! i) w =
      (Inr (Some (agents gc ! (Suc i mod ?n)), PNone), w)"
    using select_round_robin [OF assms(1-5) Suc.prems] .
  have shift: "(Suc (Suc i mod ?n) + j) mod ?n = (Suc i + Suc j) mod ?n" for j
  proof -
    have "(Suc (Suc i mod ?n) + j) mod ?n = (Suc i mod ?n + Suc j) mod ?n" by simp
    also have "\<dots> = (Suc i + Suc j) mod ?n" by (rule mod_add_left_eq)
    finally show ?thesis .
  qed
  have ih: "successive_speakers lib gc k (agents gc ! (Suc i mod ?n)) w =
      Inr (map (\<lambda>j. agents gc ! ((Suc i + Suc j) mod ?n)) [0..<k])"
    using Suc.IH [OF i'] by (simp only: shift)
  have unroll: "map (\<lambda>j. agents gc ! ((Suc i + j) mod ?n)) [0..<Suc k] =
        agents gc ! (Suc i mod ?n) # map (\<lambda>j. agents gc ! ((Suc i + Suc j) mod ?n)) [0..<k]"
    by (simp add: upt_conv_Cons map_Suc_upt [symmetric] del: upt_Suc)
  show ?case
    by (simp only: successive_speakers.simps step ih unroll prod.case sum.case option.case)
qed

text \<open>
  C6. On a roster of \<open>n \<ge> 2\<close> participants with distinct names, under the policy
  \<^verbatim>\<open>round_robin\<close> with repeats allowed and the full roster as candidate pool, \<open>n\<close>
  successive selections starting from the roster member at position \<open>i\<close> choose the roster
  rotated by \<open>i + 1\<close>: every member exactly once, in roster order with wrap-around.
\<close>

theorem round_robin_visits_roster_in_order:
  assumes "distinct (agent_names gc)"
    and "2 \<le> length (agents gc)"
    and "lower (speaker_selection_method gc) = ''round_robin''"
    and "\<forall>a \<in> set (agents gc). effective_allow_repeat gc a = Inr True"
    and "function_call_routing gc w = Candidates (agents gc)"
    and "i < length (agents gc)"
  shows "successive_speakers lib gc (length (agents gc)) (agents gc ! i) w =
           Inr (rotate (Suc i) (agents gc)) \<and>
         distinct (rotate (Suc i) (agents gc)) \<and>
         set (rotate (Suc i) (agents gc)) = set (agents gc)"
proof -
  let ?n = "length (agents gc)"
  have "map (\<lambda>j. agents gc ! ((Suc i + j) mod ?n)) [0..<?n] = rotate (Suc i) (agents gc)"
    by (rule nth_equalityI) (simp_all add: nth_rotate del: rotate_Suc)
  moreover have "distinct (agents gc)"
    using assms(1) by (simp add: agent_names_def distinct_map)
  ultimately show ?thesis
    using successive_round_robin [OF assms, of lib ?n] by (simp del: rotate_Suc)
qed

theorem round_robin_visits_roster_in_order_witness:
  "successive_speakers example_lib (chat ''round_robin'' (RBool True) [0]) 3 coder world0 =
     Inr [reviewer, admin, coder]"
proof -
  have "distinct (agent_names (chat ''round_robin'' (RBool True) [0]))"
    by (simp add: chat_def agent_names_def admin_def coder_def reviewer_def)
  moreover have "2 \<le> length (agents (chat ''round_robin'' (RBool True) [0]))"
    by (simp add: chat_def)
  moreover have "lower (speaker_selection_method (chat ''round_robin'' (RBool True) [0])) = ''round_robin''"
    by code_simp
  moreover have "\<forall>a \<in> set (agents (chat ''round_robin'' (RBool True) [0])).
      effective_allow_repeat (chat ''round_robin'' (RBool True) [0]) a = Inr True"
    by (simp add: chat_def effective_allow_repeat_def)
  moreover have "function_call_routing (chat ''round_robin'' (RBool True) [0]) world0 =
      Candidates (agents (chat ''round_robin'' (RBool True) [0]))"
    by (simp add: chat_def function_call_routing_def world0_def hello_def)
  moreover have "(1::nat) < length (agents (chat ''round_robin'' (RBool True) [0]))"
    by (simp add: chat_def)
  ultimately have "successive_speakers example_lib (chat ''round_robin'' (RBool True) [0])
      (length (agents (chat ''round_robin'' (RBool True) [0])))
      (agents (chat ''round_robin'' (RBool True) [0]) ! 1) world0 =
      Inr (rotate (Suc 1) (agents (chat ''round_robin'' (RBool True) [0])))"
    using round_robin_visits_roster_in_order [of "chat ''round_robin'' (RBool True) [0]" world0 1 example_lib]
    by blast
  then show ?thesis by (simp add: chat_def numeral_2_eq_2 numeral_3_eq_3)
qed

text \<open>
  C3. The response \<^verbatim>\<open>{"why": "unsure", "what": "Please continue."}\<close> is valid JSON
  without the participant name: \<^verbatim>\<open>parsed_response["who"]\<close> raises \<^verbatim>\<open>KeyError\<close>,
  which the handler of \<^verbatim>\<open>ValueError\<close> does not catch, where \<^verbatim>\<open>next_agent\<close> on the
  same pool would have chosen the Coder. A response that is a JSON array raises
  \<^verbatim>\<open>TypeError\<close> in the same place.
\<close>

theorem missing_who_raises_KeyError:
  "json_loads example_lib decision_without_who =
     Some (PDict [(''why'', PStr ''unsure''), (''what'', PStr ''Please continue.'')]) \<and>
   fst (select_speaker example_lib (chat ''auto'' (RBool True) [0]) admin
          (world0\<lparr>decisions := [(True, decision_without_who)]\<rparr>)) = Inl KeyError \<and>
   fst (select_speaker example_lib (chat ''auto'' (RBool True) [0]) admin
          (world0\<lparr>decisions := [(True, ''[1]'')]\<rparr>)) = Inl TypeError \<and>
   next_agent (chat ''auto'' (RBool True) [0]) admin [admin, coder, reviewer] = Inr (Some coder)"
  by code_simp

text \<open>
  C4. The operator answers \<^verbatim>\<open>x\<close>, \<^verbatim>\<open>y\<close> and would answer \<^verbatim>\<open>1\<close>: after two
  invalid lines \<^verbatim>\<open>manual_select_speaker\<close> announces three tries and returns
  \<^verbatim>\<open>None\<close>, the third line unread. The operator has two attempts, not three.
\<close>

theorem manual_gives_two_attempts:
  "(case manual_select_speaker example_lib [coder, reviewer]
           (world0\<lparr>stdin := [''x'', ''y'', ''1'']\<rparr>) of
      (r, w) \<Rightarrow> (r, stdin w, trace w)) =
   (Inr None, [''1''],
    [Print_menu [''Coder'', ''Reviewer''], Input_prompt, Print_invalid,
     Input_prompt, Print_invalid, Print_tries 3])"
  by code_simp

section \<open>The turn orchestrator: theorems\<close>

text \<open>
  C2. The same conversation in both modes: a roster of three under \<^verbatim>\<open>round_robin\<close>,
  two rounds, Admin opening with \<^verbatim>\<open>hello\<close> and the next speaker replying once.
  \<^verbatim>\<open>run_chat\<close> returns with both messages in the ledger; \<^verbatim>\<open>a_run_chat\<close> raises
  \<^verbatim>\<open>AttributeError\<close> after the first selection, with one message in the ledger.
\<close>

theorem suspendable_run_raises_AttributeError:
  "(case run_chat example_manager example_lib [0] admin
           ((chat ''round_robin'' (RBool False) [])\<lparr>max_round := 2\<rparr>)
           (world0\<lparr>replies := [Reply hello]\<rparr>) of
      (r, gc, w) \<Rightarrow> (r, messages gc)) = (Inr (True, PNone), [0, 3]) \<and>
   (case a_run_chat example_manager example_lib [0] admin
           ((chat ''round_robin'' (RBool False) [])\<lparr>max_round := 2\<rparr>)
           (world0\<lparr>replies := [Reply hello]\<rparr>) of
      (r, gc, w) \<Rightarrow> (r, messages gc)) = (Inl AttributeError, [0])"
  by code_simp

end
